theory Spec2Isabelle
  imports Main "HOL-Library.Word"
begin

section \<open>JavaScript strings and numbers\<close>

text \<open>
  A JavaScript string is a sequence of 16-bit code units. Literals of the source are
  written \<open>js ''...''\<close>; every literal of the source is ASCII.
\<close>

type_synonym code_unit = "16 word"
type_synonym js_string = "code_unit list"

definition js :: "string \<Rightarrow> js_string" where
  "js s = map of_char s"

definition startsWith :: "js_string \<Rightarrow> js_string \<Rightarrow> bool" where
  \<comment> \<open>\<open>s.startsWith(p)\<close>\<close>
  "startsWith s p = (take (length p) s = p)"

definition endsWith :: "js_string \<Rightarrow> js_string \<Rightarrow> bool" where
  \<comment> \<open>\<open>s\<close> ends with \<open>p\<close>: what a pattern anchored by \<open>$\<close> asks of the input\<close>
  "endsWith s p = (length p \<le> length s \<and> drop (length s - length p) s = p)"

fun includes_str :: "js_string \<Rightarrow> js_string \<Rightarrow> bool" where
  \<comment> \<open>\<open>s.includes(p)\<close>: \<open>p\<close> occurs at some position of \<open>s\<close>\<close>
  "includes_str [] p = (p = [])"
| "includes_str (c # cs) p = (startsWith (c # cs) p \<or> includes_str cs p)"

definition falsy :: "js_string option \<Rightarrow> bool" where
  \<comment> \<open>\<open>!v\<close> for a value that is a string, \<open>null\<close> or \<open>undefined\<close>
      (\<open>None\<close> stands for both): the empty string is falsy too\<close>
  "falsy v = (case v of None \<Rightarrow> True | Some s \<Rightarrow> s = [])"

definition is_space :: "code_unit \<Rightarrow> bool" where
  \<comment> \<open>the class \<open>\s\<close> of a regular expression, which is also what \<open>trim()\<close> removes:
      WhiteSpace and LineTerminator of ECMAScript\<close>
  "is_space c =
     (c = 0x09 \<or> c = 0x0A \<or> c = 0x0B \<or> c = 0x0C \<or> c = 0x0D \<or> c = 0x20 \<or> c = 0xA0
      \<or> c = 0x1680 \<or> (0x2000 \<le> c \<and> c \<le> 0x200A) \<or> c = 0x2028 \<or> c = 0x2029
      \<or> c = 0x202F \<or> c = 0x205F \<or> c = 0x3000 \<or> c = 0xFEFF)"

definition trim :: "js_string \<Rightarrow> js_string" where
  \<comment> \<open>\<open>s.trim()\<close>\<close>
  "trim s = rev (dropWhile is_space (rev (dropWhile is_space s)))"

definition digit :: "nat \<Rightarrow> code_unit" where
  "digit d = of_nat (48 + d)"

function show_nat :: "nat \<Rightarrow> js_string" where
  \<comment> \<open>the decimal text of a non-negative integer, as string conversion gives it\<close>
  "show_nat n = (if n < 10 then [digit n] else show_nat (n div 10) @ [digit (n mod 10)])"
  by pat_completeness auto
termination
  by (relation "measure id") auto

declare show_nat.simps [simp del]

section \<open>The encoding helpers (services/fileUtils.ts)\<close>

subsection \<open>fileToBase64\<close>

text \<open>
  The \<open>FileReader\<close> is the browser's: what it does with the file is an input of the
  model, either \<open>onload\<close> with \<open>reader.result\<close> (a data URL) or \<open>onerror\<close>.
\<close>

datatype read_outcome = Loaded js_string | ReadFailed

fun split :: "code_unit \<Rightarrow> js_string \<Rightarrow> js_string list" where
  \<comment> \<open>\<open>s.split(sep)\<close> for a separator of one code unit\<close>
  "split sep [] = [[]]"
| "split sep (c # cs) =
     (if c = sep then [] # split sep cs
      else (case split sep cs of [] \<Rightarrow> [[c]] | p # ps \<Rightarrow> (c # p) # ps))"

definition at_index :: "'a list \<Rightarrow> nat \<Rightarrow> 'a option" where
  \<comment> \<open>\<open>xs[i]\<close>: \<open>undefined\<close> (here \<open>None\<close>) out of range\<close>
  "at_index xs i = (if i < length xs then Some (xs ! i) else None)"

definition fileToBase64 :: "read_outcome \<Rightarrow> unit + js_string option" where
  \<comment> \<open>\<open>Inl ()\<close> is the rejected promise, \<open>Inr\<close> the resolved one\<close>
  "fileToBase64 r =
     (case r of
        Loaded result \<Rightarrow> Inr (at_index (split 0x2C result) 1)
      | ReadFailed \<Rightarrow> Inl ())"

subsection \<open>formatFileSize\<close>

text \<open>
  The byte count is a non-negative integer. For an integer below \<open>2 ^ 53\<close> the quotient
  \<open>bytes / Math.pow(k, i)\<close> is exact in double precision (a division by a power of
  two), so \<open>toFixed(2)\<close> rounds the exact quotient; the model keeps it as a whole
  number of hundredths. \<open>Math.floor(Math.log(bytes) / Math.log(k))\<close> is modelled as
  the exact integer logarithm, which is what the quotient of the two double-precision
  logarithms gives for every byte count below \<open>2 ^ 50 - 3\<close>; from there on the
  rounded quotient can reach the next integer early (at \<open>2 ^ 50 - 1\<close> the code has
  the index 5 where the exact logarithm is 4); the properties of \<open>formatFileSize\<close>
  below take byte counts under that bound.
\<close>

definition sizes :: "js_string list" where
  "sizes = [js ''Bytes'', js ''KB'', js ''MB'', js ''GB'']"

function floor_log :: "nat \<Rightarrow> nat \<Rightarrow> nat" where
  \<comment> \<open>\<open>Math.floor(Math.log(n) / Math.log(k))\<close> for \<open>n \<ge> 1\<close>\<close>
  "floor_log k n = (if n < k \<or> k < 2 then 0 else Suc (floor_log k (n div k)))"
  by pat_completeness auto
termination
  by (relation "measure snd") auto

declare floor_log.simps [simp del]

definition toFixed2 :: "nat \<Rightarrow> nat \<Rightarrow> nat" where
  \<comment> \<open>\<open>(n / d).toFixed(2)\<close> as a number of hundredths: the nearest one, the larger
      of the two on a tie\<close>
  "toFixed2 n d = (200 * n + d) div (2 * d)"

definition show_hundredths :: "nat \<Rightarrow> js_string" where
  \<comment> \<open>\<open>parseFloat\<close> of a two-decimal text, converted back to a string by \<open>+\<close>:
      the zeros that end the fraction are gone\<close>
  "show_hundredths h =
     show_nat (h div 100) @
     (if h mod 100 = 0 then []
      else if h mod 10 = 0 then js ''.'' @ [digit (h mod 100 div 10)]
      else js ''.'' @ [digit (h mod 100 div 10), digit (h mod 10)])"

definition formatFileSize :: "nat \<Rightarrow> js_string" where
  "formatFileSize bytes =
     (if bytes = 0 then js ''0 Bytes''
      else
        let k = 1024;
            i = floor_log k bytes
        in show_hundredths (toFixed2 bytes (k ^ i)) @ js '' '' @
           (case at_index sizes i of Some unit_name \<Rightarrow> unit_name | None \<Rightarrow> js ''undefined''))"

subsection \<open>downloadSrt\<close>

definition ext_chars :: "js_string \<Rightarrow> bool" where
  \<comment> \<open>\<open>[^/.]+$\<close>: one code unit or more, none of them \<open>/\<close> or \<open>.\<close>, up to the
      end of the input\<close>
  "ext_chars r = (r \<noteq> [] \<and> list_all (\<lambda>c. c \<noteq> 0x2F \<and> c \<noteq> 0x2E) r)"

fun strip_extension :: "js_string \<Rightarrow> js_string" where
  \<comment> \<open>\<open>filename.replace(/\.[^/.]+$/, "")\<close>: the leftmost position where the pattern
      matches; the match runs to the end of the input and is replaced by nothing\<close>
  "strip_extension [] = []"
| "strip_extension (c # cs) =
     (if c = 0x2E \<and> ext_chars cs then [] else c # strip_extension cs)"

record download =
  download_name :: js_string
  download_content :: js_string

definition downloadSrt :: "js_string \<Rightarrow> js_string \<Rightarrow> download" where
  \<comment> \<open>the anchor element that is clicked: its \<open>download\<close> attribute and the text of
      the blob behind its \<open>href\<close>\<close>
  "downloadSrt content filename =
     \<lparr>download_name = strip_extension filename @ js ''.srt'', download_content = content\<rparr>"

section \<open>The alignment client (services/geminiService.ts)\<close>

definition fence :: js_string where
  \<comment> \<open>three backticks, the marker of a markdown code block\<close>
  "fence = [0x60, 0x60, 0x60]"

definition prompt :: "js_string \<Rightarrow> js_string" where
  \<comment> \<open>the template literal, with the transcript interpolated\<close>
  "prompt transcript =
     js ''\<newline>'' @
     js ''    You are an expert video subtitle synchronizer.\<newline>'' @
     js ''    \<newline>'' @
     js ''    Task:\<newline>'' @
     js ''    1. Analyze the audio in the provided video file.\<newline>'' @
     js ''    2. Synchronize the provided TRANSCRIPT text with the audio.\<newline>'' @
     js ''    3. Generate a standard SRT (SubRip Subtitle) file.\<newline>'' @
     js ''    \<newline>'' @
     js ''    Rules:\<newline>'' @
     js ''    - Output ONLY the SRT content. Do not output markdown code blocks (like '' @ fence @
     js ''), do not output explanations.\<newline>'' @
     js ''    - Ensure the timestamps are accurate to the spoken words.\<newline>'' @
     js ''    - If the transcript is in a different language than the audio, try to map them, but primarily listen to the audio for timing. \<newline>'' @
     js ''    - Break lines naturally for readability.\<newline>'' @
     js ''    - If the video is silent or speech cannot be detected, return an empty SRT block or a specific error message '' @
     [0x22] @ js ''ERROR: No speech detected'' @ [0x22] @ js ''.\<newline>'' @
     js ''\<newline>'' @
     js ''    TRANSCRIPT:\<newline>'' @
     js ''    '' @ transcript @ js ''\<newline>'' @
     js ''  ''"

record request =
  apiKey :: js_string
  model_name :: js_string
  inline_mimeType :: js_string
  inline_data :: js_string
  prompt_text :: js_string
  temperature_tenths :: nat

text \<open>
  The service is the remote one: what it answers to a request is an input of the model,
  either a response with its \<open>text\<close> (\<open>None\<close> when the response has none) or a thrown
  error with its \<open>message\<close>.
\<close>

datatype service_outcome = Responded "js_string option" | Threw "js_string option"

record environment =
  API_KEY :: "js_string option"
  generateContent :: "request \<Rightarrow> service_outcome"

definition srt_tag :: "js_string \<Rightarrow> bool" where
  \<comment> \<open>\<open>srt\<close> under the flag \<open>i\<close>: the input goes on with these three letters, in
      either case\<close>
  "srt_tag r =
     (case r of
        a # b # c # _ \<Rightarrow>
          (a = 0x73 \<or> a = 0x53) \<and> (b = 0x72 \<or> b = 0x52) \<and> (c = 0x74 \<or> c = 0x54)
      | _ \<Rightarrow> False)"

definition strip_srt_fence :: "js_string \<Rightarrow> js_string" where
  \<comment> \<open>\<open>.replace(/^```srt\s*/i, '')\<close>\<close>
  "strip_srt_fence t =
     (if startsWith t fence \<and> srt_tag (drop 3 t) then dropWhile is_space (drop 6 t) else t)"

definition strip_open_fence :: "js_string \<Rightarrow> js_string" where
  \<comment> \<open>\<open>.replace(/^```\s*/i, '')\<close>\<close>
  "strip_open_fence t = (if startsWith t fence then dropWhile is_space (drop 3 t) else t)"

definition strip_close_fence :: "js_string \<Rightarrow> js_string" where
  \<comment> \<open>\<open>.replace(/```$/, '')\<close>: without the flag \<open>m\<close>, \<open>$\<close> is the end of the input\<close>
  "strip_close_fence t = (if endsWith t fence then take (length t - 3) t else t)"

definition cleanedText :: "js_string \<Rightarrow> js_string" where
  "cleanedText t = trim (strip_close_fence (strip_open_fence (strip_srt_fence t)))"

definition rethrown :: "js_string option \<Rightarrow> js_string" where
  \<comment> \<open>the \<open>catch\<close> block: \<open>throw new Error(error.message || "Failed to generate subtitles.")\<close>\<close>
  "rethrown message =
     (case message of
        None \<Rightarrow> js ''Failed to generate subtitles.''
      | Some m \<Rightarrow> if m = [] then js ''Failed to generate subtitles.'' else m)"

definition generateSrtFromVideo ::
  "environment \<Rightarrow> js_string \<Rightarrow> js_string \<Rightarrow> js_string \<Rightarrow> request list \<times> (js_string + js_string)" where
  \<comment> \<open>the requests sent to the service, and the promise's outcome: \<open>Inl\<close> the message of
      the thrown \<open>Error\<close>, \<open>Inr\<close> the returned text\<close>
  "generateSrtFromVideo env videoBase64 mimeType transcript =
     (case API_KEY env of
        None \<Rightarrow> ([], Inl (js ''API Key is missing. Please ensure process.env.API_KEY is available.''))
      | Some key \<Rightarrow>
          if key = [] then
            ([], Inl (js ''API Key is missing. Please ensure process.env.API_KEY is available.''))
          else
            let req = \<lparr>apiKey = key, model_name = js ''gemini-2.5-flash'',
                       inline_mimeType = mimeType, inline_data = videoBase64,
                       prompt_text = prompt transcript, temperature_tenths = 2\<rparr>
            in ([req],
                case generateContent env req of
                  Threw message \<Rightarrow> Inl (rethrown message)
                | Responded response_text \<Rightarrow>
                    if falsy response_text
                    then Inl (rethrown (Some (js ''Gemini returned an empty response.'')))
                    else (case response_text of
                            Some t \<Rightarrow> Inr (cleanedText t)
                          | None \<Rightarrow> Inl (rethrown (Some (js ''Gemini returned an empty response.''))))))"

section \<open>The workflow controller (App.tsx)\<close>

datatype AppStep = UPLOAD | TRANSCRIPT | PROCESSING | RESULT | ERROR

record File =
  file_name :: js_string
  file_size :: nat
  file_type :: js_string

record ProcessingState =
  step :: AppStep
  videoFile :: "File option"
  videoBase64 :: "js_string option"
  transcript :: js_string
  generatedSrt :: js_string
  error :: "js_string option"

definition MAX_FILE_SIZE_MB :: nat where
  "MAX_FILE_SIZE_MB = 200"

definition MAX_FILE_SIZE_BYTES :: nat where
  "MAX_FILE_SIZE_BYTES = MAX_FILE_SIZE_MB * 1024 * 1024"

definition initial_state :: ProcessingState where
  "initial_state =
     \<lparr>step = UPLOAD, videoFile = None, videoBase64 = None, transcript = [],
      generatedSrt = [], error = None\<rparr>"

text \<open>
  A handler that awaits is two functions: the part that runs when the event fires, which
  also says what it started (the file it began to encode, the state it closed over when it
  called the alignment client), and the part that runs when the promise settles, on the
  state of that later moment (\<open>setState(prev => ...)\<close>).
\<close>

definition handleFileSelect_begin ::
  "ProcessingState \<Rightarrow> File list option \<Rightarrow> ProcessingState \<times> File option" where
  "handleFileSelect_begin prev files =
     (case files of
        Some (file # _) \<Rightarrow>
          if MAX_FILE_SIZE_BYTES < file_size file then
            (prev\<lparr>error := Some (js ''File too large. Please upload a video smaller than '' @
                                  show_nat MAX_FILE_SIZE_MB @ js ''MB.'')\<rparr>, None)
          else if \<not> startsWith (file_type file) (js ''video/'') then
            (prev\<lparr>error := Some (js ''Please upload a valid video file.'')\<rparr>, None)
          else (prev\<lparr>videoFile := Some file, error := None\<rparr>, Some file)
      | _ \<Rightarrow> (prev, None))"

definition handleFileSelect_settle ::
  "unit + js_string option \<Rightarrow> ProcessingState \<Rightarrow> ProcessingState" where
  "handleFileSelect_settle r prev =
     (case r of
        Inr base64 \<Rightarrow> prev\<lparr>videoBase64 := base64, step := TRANSCRIPT\<rparr>
      | Inl _ \<Rightarrow> prev\<lparr>error := Some (js ''Failed to process video file.'')\<rparr>)"

definition handleFileSelect ::
  "ProcessingState \<Rightarrow> File list option \<Rightarrow> read_outcome \<Rightarrow> ProcessingState" where
  \<comment> \<open>the whole handler, when nothing else happens while it awaits\<close>
  "handleFileSelect prev files r =
     (case handleFileSelect_begin prev files of
        (s, None) \<Rightarrow> s
      | (s, Some file) \<Rightarrow> handleFileSelect_settle (fileToBase64 r) s)"

definition handleDrop_begin ::
  "ProcessingState \<Rightarrow> File list option \<Rightarrow> ProcessingState \<times> File option" where
  "handleDrop_begin prev files =
     (case files of
        Some (file # _) \<Rightarrow>
          if MAX_FILE_SIZE_BYTES < file_size file then
            (prev\<lparr>error := Some (js ''File too large. Please upload a video smaller than '' @
                                  show_nat MAX_FILE_SIZE_MB @ js ''MB.'')\<rparr>, None)
          else if \<not> startsWith (file_type file) (js ''video/'') then
            (prev\<lparr>error := Some (js ''Please upload a valid video file.'')\<rparr>, None)
          else (prev\<lparr>videoFile := Some file, error := None\<rparr>, Some file)
      | _ \<Rightarrow> (prev, None))"

definition handleDrop_settle ::
  "unit + js_string option \<Rightarrow> ProcessingState \<Rightarrow> ProcessingState" where
  "handleDrop_settle r prev =
     (case r of
        Inr base64 \<Rightarrow> prev\<lparr>videoBase64 := base64, step := TRANSCRIPT\<rparr>
      | Inl _ \<Rightarrow> prev\<lparr>error := Some (js ''Failed to process video file.'')\<rparr>)"

definition handleDrop ::
  "ProcessingState \<Rightarrow> File list option \<Rightarrow> read_outcome \<Rightarrow> ProcessingState" where
  "handleDrop prev files r =
     (case handleDrop_begin prev files of
        (s, None) \<Rightarrow> s
      | (s, Some file) \<Rightarrow> handleDrop_settle (fileToBase64 r) s)"

definition handleGenerate_begin ::
  "ProcessingState \<Rightarrow> ProcessingState \<times> (js_string \<times> js_string \<times> js_string) option" where
  \<comment> \<open>the second component: the arguments of the call of \<open>generateSrtFromVideo\<close>, when
      there is one\<close>
  "handleGenerate_begin state =
     (case (videoBase64 state, videoFile state) of
        (Some base64, Some file) \<Rightarrow>
          if base64 = [] \<or> trim (transcript state) = [] then
            (state\<lparr>error := Some (js ''Please provide both a video and a transcript.'')\<rparr>, None)
          else
            (state\<lparr>step := PROCESSING, error := None\<rparr>,
             Some (base64, file_type file, transcript state))
      | _ \<Rightarrow>
          (state\<lparr>error := Some (js ''Please provide both a video and a transcript.'')\<rparr>, None))"

definition handleGenerate_settle ::
  "ProcessingState \<Rightarrow> js_string + js_string \<Rightarrow> ProcessingState \<Rightarrow> ProcessingState" where
  \<comment> \<open>\<open>state\<close> is the state the handler closed over, \<open>prev\<close> the state when the promise
      settles\<close>
  "handleGenerate_settle state r prev =
     (case r of
        Inr srt \<Rightarrow> prev\<lparr>generatedSrt := srt, step := RESULT\<rparr>
      | Inl message \<Rightarrow>
          let errorMessage =
                (if message = [] then js ''An error occurred while communicating with AI.''
                 else message);
              large = (case videoFile state of
                         Some file \<Rightarrow> 20 * 1024 * 1024 < file_size file
                       | None \<Rightarrow> False)
          in prev\<lparr>step := ERROR,
                  error := Some
                    (if large \<and> includes_str errorMessage (js ''400'')
                     then errorMessage @
                          js '' (The file might be too large for direct API processing. Try compressing it under 20MB.)''
                     else errorMessage)\<rparr>)"

definition handleGenerate ::
  "environment \<Rightarrow> ProcessingState \<Rightarrow> ProcessingState \<times> request list" where
  \<comment> \<open>the whole handler, when nothing else happens while it awaits; with the requests
      that went to the service\<close>
  "handleGenerate env state =
     (case handleGenerate_begin state of
        (s, None) \<Rightarrow> (s, [])
      | (s, Some (base64, mimeType, script)) \<Rightarrow>
          (case generateSrtFromVideo env base64 mimeType script of
             (sent, r) \<Rightarrow> (handleGenerate_settle state r s, sent)))"

definition handleReset :: "ProcessingState \<Rightarrow> ProcessingState" where
  "handleReset prev = initial_state"

definition tryAgain :: "ProcessingState \<Rightarrow> ProcessingState" where
  \<comment> \<open>the \<open>onClick\<close> of the button of \<open>renderErrorStep\<close>\<close>
  "tryAgain prev = prev\<lparr>step := TRANSCRIPT, error := None\<rparr>"

definition changeTranscript :: "js_string \<Rightarrow> ProcessingState \<Rightarrow> ProcessingState" where
  \<comment> \<open>the \<open>onChange\<close> of the text area of \<open>renderTranscriptStep\<close>\<close>
  "changeTranscript v prev = prev\<lparr>transcript := v\<rparr>"

section \<open>The session: handlers interleaved at their awaits\<close>

text \<open>
  Between the two parts of a handler that awaits, the page stays live: whatever the
  rendered step offers can fire. A session is the state of the component together with the
  promises that have not settled yet.
\<close>

datatype entry_point = FileInput | DropZone

record session =
  ui :: ProcessingState
  encoding :: "(entry_point \<times> File) list"
  aligning :: "(ProcessingState \<times> (js_string + js_string)) list"
  sent_requests :: "request list"
  saved :: "download list"

definition initial_session :: session where
  "initial_session =
     \<lparr>ui = initial_state, encoding = [], aligning = [], sent_requests = [], saved = []\<rparr>"

datatype event =
    FileSelected "File list option"
  | Dropped "File list option"
  | EncodingSettled nat read_outcome
  | TranscriptChanged js_string
  | GenerateClicked
  | AlignmentSettled nat
  | ResetClicked
  | TryAgainClicked
  | DownloadClicked

definition remove_nth :: "nat \<Rightarrow> 'a list \<Rightarrow> 'a list" where
  "remove_nth i xs = take i xs @ drop (Suc i) xs"

fun enabled :: "session \<Rightarrow> event \<Rightarrow> bool" where
  \<comment> \<open>what the rendered step wires to a handler, and the promises that can settle\<close>
  "enabled \<sigma> (FileSelected files) = (step (ui \<sigma>) = UPLOAD)"
| "enabled \<sigma> (Dropped files) = (step (ui \<sigma>) = UPLOAD)"
| "enabled \<sigma> (EncodingSettled i r) = (i < length (encoding \<sigma>))"
| "enabled \<sigma> (TranscriptChanged v) = (step (ui \<sigma>) = TRANSCRIPT)"
| "enabled \<sigma> GenerateClicked =
     (step (ui \<sigma>) = TRANSCRIPT \<and> trim (transcript (ui \<sigma>)) \<noteq> [])"
| "enabled \<sigma> (AlignmentSettled i) = (i < length (aligning \<sigma>))"
| "enabled \<sigma> ResetClicked = (step (ui \<sigma>) = TRANSCRIPT \<or> step (ui \<sigma>) = RESULT)"
| "enabled \<sigma> TryAgainClicked = (step (ui \<sigma>) = ERROR)"
| "enabled \<sigma> DownloadClicked = (step (ui \<sigma>) = RESULT)"

fun fire :: "environment \<Rightarrow> session \<Rightarrow> event \<Rightarrow> session" where
  "fire env \<sigma> (FileSelected files) =
     (case handleFileSelect_begin (ui \<sigma>) files of
        (s, None) \<Rightarrow> \<sigma>\<lparr>ui := s\<rparr>
      | (s, Some file) \<Rightarrow> \<sigma>\<lparr>ui := s, encoding := encoding \<sigma> @ [(FileInput, file)]\<rparr>)"
| "fire env \<sigma> (Dropped files) =
     (case handleDrop_begin (ui \<sigma>) files of
        (s, None) \<Rightarrow> \<sigma>\<lparr>ui := s\<rparr>
      | (s, Some file) \<Rightarrow> \<sigma>\<lparr>ui := s, encoding := encoding \<sigma> @ [(DropZone, file)]\<rparr>)"
| "fire env \<sigma> (EncodingSettled i r) =
     (case at_index (encoding \<sigma>) i of
        None \<Rightarrow> \<sigma>
      | Some (FileInput, file) \<Rightarrow>
          \<sigma>\<lparr>ui := handleFileSelect_settle (fileToBase64 r) (ui \<sigma>),
            encoding := remove_nth i (encoding \<sigma>)\<rparr>
      | Some (DropZone, file) \<Rightarrow>
          \<sigma>\<lparr>ui := handleDrop_settle (fileToBase64 r) (ui \<sigma>),
            encoding := remove_nth i (encoding \<sigma>)\<rparr>)"
| "fire env \<sigma> (TranscriptChanged v) = \<sigma>\<lparr>ui := changeTranscript v (ui \<sigma>)\<rparr>"
| "fire env \<sigma> GenerateClicked =
     (case handleGenerate_begin (ui \<sigma>) of
        (s, None) \<Rightarrow> \<sigma>\<lparr>ui := s\<rparr>
      | (s, Some (base64, mimeType, script)) \<Rightarrow>
          (case generateSrtFromVideo env base64 mimeType script of
             (sent, r) \<Rightarrow>
               \<sigma>\<lparr>ui := s, aligning := aligning \<sigma> @ [(ui \<sigma>, r)],
                 sent_requests := sent_requests \<sigma> @ sent\<rparr>))"
| "fire env \<sigma> (AlignmentSettled i) =
     (case at_index (aligning \<sigma>) i of
        None \<Rightarrow> \<sigma>
      | Some (state, r) \<Rightarrow>
          \<sigma>\<lparr>ui := handleGenerate_settle state r (ui \<sigma>),
            aligning := remove_nth i (aligning \<sigma>)\<rparr>)"
| "fire env \<sigma> ResetClicked = \<sigma>\<lparr>ui := handleReset (ui \<sigma>)\<rparr>"
| "fire env \<sigma> TryAgainClicked = \<sigma>\<lparr>ui := tryAgain (ui \<sigma>)\<rparr>"
| "fire env \<sigma> DownloadClicked =
     \<sigma>\<lparr>saved := saved \<sigma> @
        [downloadSrt (generatedSrt (ui \<sigma>))
           (case videoFile (ui \<sigma>) of
              None \<Rightarrow> js ''video''
            | Some file \<Rightarrow> if file_name file = [] then js ''video'' else file_name file)]\<rparr>"

fun run :: "environment \<Rightarrow> session \<Rightarrow> event list \<Rightarrow> session option" where
  \<comment> \<open>\<open>None\<close>: an event of the list cannot fire where it stands\<close>
  "run env \<sigma> [] = Some \<sigma>"
| "run env \<sigma> (e # es) = (if enabled \<sigma> e then run env (fire env \<sigma> e) es else None)"

text \<open>Inputs of the examples below.\<close>

definition clip :: File where
  "clip = \<lparr>file_name = js ''clip.mp4'', file_size = 1000, file_type = js ''video/mp4''\<rparr>"

definition long_take :: File where
  \<comment> \<open>25 MB\<close>
  "long_take =
     \<lparr>file_name = js ''take.mp4'', file_size = 25 * 1024 * 1024, file_type = js ''video/mp4''\<rparr>"

definition feature :: File where
  \<comment> \<open>300 MB\<close>
  "feature =
     \<lparr>file_name = js ''feature.mp4'', file_size = 300 * 1024 * 1024,
      file_type = js ''video/mp4''\<rparr>"

definition picture :: File where
  "picture = \<lparr>file_name = js ''picture.png'', file_size = 1000, file_type = js ''image/png''\<rparr>"

definition answering :: "js_string \<Rightarrow> environment" where
  \<comment> \<open>a credential, and a service that answers every request with the given text\<close>
  "answering t = \<lparr>API_KEY = Some (js ''key''), generateContent = (\<lambda>req. Responded (Some t))\<rparr>"

definition refusing :: "js_string \<Rightarrow> environment" where
  \<comment> \<open>a credential, and a service that fails every request with the given message\<close>
  "refusing m = \<lparr>API_KEY = Some (js ''key''), generateContent = (\<lambda>req. Threw (Some m))\<rparr>"

definition no_credential :: environment where
  "no_credential = \<lparr>API_KEY = None, generateContent = (\<lambda>req. Responded (Some (js ''1'')))\<rparr>"

definition ready :: "File \<Rightarrow> ProcessingState" where
  \<comment> \<open>the transcript step, with the file encoded and a transcript typed in\<close>
  "ready file =
     \<lparr>step = TRANSCRIPT, videoFile = Some file, videoBase64 = Some (js ''AAAA''),
      transcript = js ''Hello world'', generatedSrt = [], error = None\<rparr>"


definition overlapping_uploads :: "event list" where
  \<comment> \<open>a second file is dropped while the first is still being read; the first read
      ends, a transcript is typed and generation is requested; then the second read ends\<close>
  "overlapping_uploads =
     [FileSelected (Some [clip]),
      Dropped (Some [long_take]),
      EncodingSettled 0 (Loaded (js ''data:video/mp4;base64,AAAA'')),
      TranscriptChanged (js ''Hello world''),
      GenerateClicked,
      EncodingSettled 0 (Loaded (js ''data:video/mp4;base64,BBBB''))]"

fun offers :: "event \<Rightarrow> bool" where
  "offers (FileSelected files) = True"
| "offers (Dropped files) = True"
| "offers e = False"

fun one_upload_at_a_time :: "environment \<Rightarrow> session \<Rightarrow> event list \<Rightarrow> bool" where
  \<comment> \<open>no file is offered while a file is still being read\<close>
  "one_upload_at_a_time env \<sigma> [] = True"
| "one_upload_at_a_time env \<sigma> (e # es) =
     ((offers e \<longrightarrow> encoding \<sigma> = []) \<and> one_upload_at_a_time env (fire env \<sigma> e) es)"

definition serial :: "session \<Rightarrow> bool" where
  \<comment> \<open>at most one promise of each kind is unsettled, and the step says which\<close>
  "serial \<sigma> =
     (length (aligning \<sigma>) \<le> 1 \<and> length (encoding \<sigma>) \<le> 1
      \<and> (aligning \<sigma> \<noteq> [] \<longrightarrow> step (ui \<sigma>) = PROCESSING \<and> encoding \<sigma> = [])
      \<and> (encoding \<sigma> \<noteq> [] \<longrightarrow> step (ui \<sigma>) = UPLOAD))"

section \<open>The shapes of a response\<close>

text \<open>
  The post-processing in the words of its description, to be compared with
  \<open>cleanedText\<close>: a response is an opening, white space, a body, white space and a
  closing. The opening is nothing, a fence, a fence tagged \<open>srt\<close>, or a fence tagged
  \<open>srt\<close> with a second fence after white space; the closing is a fence that ends the
  response, or nothing; the body has no white space at either end.
\<close>

datatype fence_opening =
  Unfenced | Untagged | Tagged js_string | Tagged_twice js_string js_string

fun opening_text :: "fence_opening \<Rightarrow> js_string" where
  "opening_text Unfenced = []"
| "opening_text Untagged = fence"
| "opening_text (Tagged tag) = fence @ tag"
| "opening_text (Tagged_twice tag w) = fence @ tag @ w @ fence"


definition closing_text :: "bool \<Rightarrow> js_string" where
  "closing_text closed = (if closed then fence else [])"


definition response_text ::
  "fence_opening \<Rightarrow> js_string \<Rightarrow> js_string \<Rightarrow> js_string \<Rightarrow> bool \<Rightarrow> js_string" where
  "response_text opn a body b closed = opening_text opn @ a @ body @ b @ closing_text closed"


section \<open>Properties\<close>

subsection \<open>The guard of the upload step\<close>

lemma js_not_empty [simp]: "(js (c # cs) = []) = False" "([] = js (c # cs)) = False"
  by (simp_all add: js_def)

lemma show_nat_200: "show_nat 200 = js ''200''"
  by (simp add: show_nat.simps digit_def js_def)

lemma too_large_message:
  "js ''File too large. Please upload a video smaller than '' @ show_nat MAX_FILE_SIZE_MB @ js ''MB.''
     = js ''File too large. Please upload a video smaller than 200MB.''"
  unfolding MAX_FILE_SIZE_MB_def show_nat_200 by (simp add: js_def)

text \<open>
  C1. A file offered on the upload step whose declared size is above 200 MB, or whose
  declared type does not start with \<open>video/\<close>, is rejected by both entry points: the
  state changes in its \<open>error\<close> field only, which holds one of the two messages of the
  guard (so \<open>step\<close> stays what it was), no handle is stored and no encoding is
  started (the part of the handler that runs on the event starts none, and the whole
  handler leaves the same state whatever reading the file would have given).
\<close>

theorem upload_guard_rejects:
  assumes "MAX_FILE_SIZE_BYTES < file_size file \<or> \<not> startsWith (file_type file) (js ''video/'')"
  shows "\<exists>msg. (msg = js ''File too large. Please upload a video smaller than 200MB.''
                \<or> msg = js ''Please upload a valid video file.'')
           \<and> handleFileSelect_begin s (Some (file # others)) = (s\<lparr>error := Some msg\<rparr>, None)
           \<and> handleDrop_begin s (Some (file # others)) = (s\<lparr>error := Some msg\<rparr>, None)
           \<and> handleFileSelect s (Some (file # others)) r = s\<lparr>error := Some msg\<rparr>
           \<and> handleDrop s (Some (file # others)) r = s\<lparr>error := Some msg\<rparr>
           \<and> step (handleFileSelect s (Some (file # others)) r) = step s
           \<and> step (handleDrop s (Some (file # others)) r) = step s"
proof (cases "MAX_FILE_SIZE_BYTES < file_size file")
  case True
  then show ?thesis
    by (intro exI [of _ "js ''File too large. Please upload a video smaller than 200MB.''"])
      (simp add: handleFileSelect_begin_def handleDrop_begin_def handleFileSelect_def
        handleDrop_def too_large_message)
next
  case False
  with assms have "\<not> startsWith (file_type file) (js ''video/'')" by simp
  with False show ?thesis
    by (intro exI [of _ "js ''Please upload a valid video file.''"])
      (simp add: handleFileSelect_begin_def handleDrop_begin_def handleFileSelect_def
        handleDrop_def)
qed

theorem upload_guard_rejects_witness:
  "MAX_FILE_SIZE_BYTES < file_size feature
   \<and> \<not> startsWith (file_type picture) (js ''video/'')
   \<and> (\<exists>msg. handleFileSelect_begin initial_state (Some [feature])
               = (initial_state\<lparr>error := Some msg\<rparr>, None)
          \<and> handleDrop initial_state (Some [feature]) (Loaded (js ''data:video/mp4;base64,AAAA''))
               = initial_state\<lparr>error := Some msg\<rparr>)
   \<and> (\<exists>msg. handleDrop_begin initial_state (Some [picture])
               = (initial_state\<lparr>error := Some msg\<rparr>, None)
          \<and> step (handleFileSelect initial_state (Some [picture])
                     (Loaded (js ''data:image/png;base64,AAAA''))) = UPLOAD)"
proof -
  have big: "MAX_FILE_SIZE_BYTES < file_size feature"
    by (simp add: MAX_FILE_SIZE_BYTES_def MAX_FILE_SIZE_MB_def feature_def)
  have png: "\<not> startsWith (file_type picture) (js ''video/'')"
    by (simp add: picture_def startsWith_def js_def)
  from upload_guard_rejects [of feature initial_state "[]" "Loaded (js ''data:video/mp4;base64,AAAA'')"] big
  have a: "\<exists>msg. handleFileSelect_begin initial_state (Some [feature])
               = (initial_state\<lparr>error := Some msg\<rparr>, None)
          \<and> handleDrop initial_state (Some [feature]) (Loaded (js ''data:video/mp4;base64,AAAA''))
               = initial_state\<lparr>error := Some msg\<rparr>"
    by blast
  from upload_guard_rejects [of picture initial_state "[]" "Loaded (js ''data:image/png;base64,AAAA'')"] png
  have b: "\<exists>msg. handleDrop_begin initial_state (Some [picture])
               = (initial_state\<lparr>error := Some msg\<rparr>, None)
          \<and> step (handleFileSelect initial_state (Some [picture])
                     (Loaded (js ''data:image/png;base64,AAAA''))) = UPLOAD"
    by (auto simp: initial_state_def)
  from big png a b show ?thesis by blast
qed

subsection \<open>A file that cannot be read\<close>

text \<open>
  C5, as the code has it. When a file passes the guard and reading it fails, the state
  changes in two fields: \<open>error\<close> is set to the message of the failure, and
  \<open>videoFile\<close> holds the offered file, stored before the encoding began. The step and
  the other fields are unchanged.
\<close>

theorem read_failure_keeps_handle:
  assumes "file_size file \<le> MAX_FILE_SIZE_BYTES"
    and "startsWith (file_type file) (js ''video/'')"
  shows "handleFileSelect s (Some (file # others)) ReadFailed
           = s\<lparr>videoFile := Some file, error := Some (js ''Failed to process video file.'')\<rparr>
       \<and> handleDrop s (Some (file # others)) ReadFailed
           = s\<lparr>videoFile := Some file, error := Some (js ''Failed to process video file.'')\<rparr>"
  using assms
  by (simp add: handleFileSelect_begin_def handleDrop_begin_def handleFileSelect_def
      handleDrop_def handleFileSelect_settle_def handleDrop_settle_def fileToBase64_def)

theorem read_failure_keeps_handle_witness:
  "file_size clip \<le> MAX_FILE_SIZE_BYTES \<and> startsWith (file_type clip) (js ''video/'')
   \<and> handleFileSelect initial_state (Some [clip]) ReadFailed
       = initial_state\<lparr>videoFile := Some clip, error := Some (js ''Failed to process video file.'')\<rparr>"
proof -
  have small: "file_size clip \<le> MAX_FILE_SIZE_BYTES"
    by (simp add: MAX_FILE_SIZE_BYTES_def MAX_FILE_SIZE_MB_def clip_def)
  have video: "startsWith (file_type clip) (js ''video/'')"
    by (simp add: clip_def startsWith_def js_def)
  from read_failure_keeps_handle [OF small video, of initial_state "[]"] small video
  show ?thesis by simp
qed

text \<open>
  The claim as stated (no field but \<open>error\<close> changes, the handle is not retained)
  fails on the first file of a session: the handle was absent and is present afterwards.
\<close>

theorem read_failure_handle_counterexample:
  "step (handleFileSelect initial_state (Some [clip]) ReadFailed) = UPLOAD
   \<and> error (handleFileSelect initial_state (Some [clip]) ReadFailed)
       = Some (js ''Failed to process video file.'')
   \<and> videoFile initial_state = None
   \<and> videoFile (handleFileSelect initial_state (Some [clip]) ReadFailed) = Some clip"
  by (simp add: handleFileSelect_begin_def handleFileSelect_def handleFileSelect_settle_def
      fileToBase64_def initial_state_def clip_def MAX_FILE_SIZE_BYTES_def MAX_FILE_SIZE_MB_def
      startsWith_def js_def)

subsection \<open>Retry\<close>

text \<open>
  C7. The retry trigger of the error step sets \<open>step\<close> to \<open>TRANSCRIPT\<close> and
  \<open>error\<close> to null and changes nothing else; and since a failed alignment changed only
  these two fields as well, the state after the retry is the state \<open>s\<close> from which
  generation was requested, but for them.
\<close>

theorem retry_changes_step_and_error_only:
  "tryAgain s = s\<lparr>step := TRANSCRIPT, error := None\<rparr>
   \<and> step (tryAgain s) = TRANSCRIPT \<and> error (tryAgain s) = None
   \<and> videoFile (tryAgain s) = videoFile s \<and> videoBase64 (tryAgain s) = videoBase64 s
   \<and> transcript (tryAgain s) = transcript s \<and> generatedSrt (tryAgain s) = generatedSrt s
   \<and> tryAgain (handleGenerate_settle s (Inl m) (s\<lparr>step := PROCESSING, error := None\<rparr>))
       = s\<lparr>step := TRANSCRIPT, error := None\<rparr>"
  by (simp add: tryAgain_def handleGenerate_settle_def Let_def)

subsection \<open>The credential\<close>

text \<open>
  C8. Without a credential (\<open>process.env.API_KEY\<close> undefined or empty) the alignment
  client fails with the error that says the key is missing, and it has sent no request.
\<close>

theorem missing_credential_fails_before_any_request:
  assumes "falsy (API_KEY env)"
  shows "generateSrtFromVideo env base64 mimeType script
           = ([], Inl (js ''API Key is missing. Please ensure process.env.API_KEY is available.''))"
  using assms
  by (simp add: generateSrtFromVideo_def falsy_def split: option.splits)

theorem missing_credential_witness:
  "falsy (API_KEY no_credential)
   \<and> generateSrtFromVideo no_credential (js ''AAAA'') (js ''video/mp4'') (js ''Hello world'')
       = ([], Inl (js ''API Key is missing. Please ensure process.env.API_KEY is available.''))"
proof -
  have none: "falsy (API_KEY no_credential)"
    by (simp add: falsy_def no_credential_def)
  from missing_credential_fails_before_any_request [OF none] none
  show ?thesis by simp
qed

subsection \<open>The message of a failed alignment\<close>

lemma failure_message_not_empty:
  "generateSrtFromVideo env base64 mimeType script = (sent, Inl msg) \<Longrightarrow> msg \<noteq> []"
  by (auto simp: generateSrtFromVideo_def rethrown_def Let_def falsy_def
      split: option.splits if_splits service_outcome.splits)

text \<open>
  C6. When generation is requested with a file, its encoding and a transcript that is not
  blank, and the alignment client fails with the message \<open>msg\<close>, the step becomes
  \<open>ERROR\<close> and the stored message is \<open>msg\<close> followed by the size hint if the file is
  larger than 20 MB (\<open>20 * 1024 * 1024\<close> bytes) and \<open>msg\<close> contains \<open>400\<close>, and
  \<open>msg\<close> itself otherwise. Nothing else changes.
\<close>

theorem alignment_failure_message:
  assumes "videoBase64 s = Some base64" and "base64 \<noteq> []" and "videoFile s = Some file"
    and "trim (transcript s) \<noteq> []"
    and "generateSrtFromVideo env base64 (file_type file) (transcript s) = (sent, Inl msg)"
  shows "fst (handleGenerate env s) =
           s\<lparr>step := ERROR,
             error := Some
               (if 20 * 1024 * 1024 < file_size file \<and> includes_str msg (js ''400'')
                then msg @ js '' (The file might be too large for direct API processing. Try compressing it under 20MB.)''
                else msg)\<rparr>"
proof -
  from assms(5) have "msg \<noteq> []" by (rule failure_message_not_empty)
  with assms show ?thesis
    by (simp add: handleGenerate_def handleGenerate_begin_def handleGenerate_settle_def Let_def)
qed

lemma trim_hello: "trim (js ''Hello world'') = js ''Hello world''"
  by (simp add: trim_def is_space_def js_def)

lemma refused_400:
  "generateSrtFromVideo (refusing (js ''got status: 400 Bad Request'')) (js ''AAAA'')
     (js ''video/mp4'') (js ''Hello world'')
     = ([\<lparr>apiKey = js ''key'', model_name = js ''gemini-2.5-flash'',
          inline_mimeType = js ''video/mp4'', inline_data = js ''AAAA'',
          prompt_text = prompt (js ''Hello world''), temperature_tenths = 2\<rparr>],
        Inl (js ''got status: 400 Bad Request''))"
  by (simp add: generateSrtFromVideo_def refusing_def rethrown_def Let_def)

lemma includes_400: "includes_str (js ''got status: 400 Bad Request'') (js ''400'')"
  by (simp add: js_def startsWith_def)

theorem alignment_failure_message_witness:
  "videoBase64 (ready long_take) = Some (js ''AAAA'') \<and> js ''AAAA'' \<noteq> []
   \<and> videoFile (ready long_take) = Some long_take
   \<and> trim (transcript (ready long_take)) \<noteq> []
   \<and> snd (generateSrtFromVideo (refusing (js ''got status: 400 Bad Request'')) (js ''AAAA'')
         (file_type long_take) (transcript (ready long_take)))
       = Inl (js ''got status: 400 Bad Request'')
   \<and> fst (handleGenerate (refusing (js ''got status: 400 Bad Request'')) (ready long_take))
       = (ready long_take)\<lparr>step := ERROR,
            error := Some (js ''got status: 400 Bad Request (The file might be too large for direct API processing. Try compressing it under 20MB.)'')\<rparr>"
proof -
  have a: "videoBase64 (ready long_take) = Some (js ''AAAA'')" "js ''AAAA'' \<noteq> []"
    "videoFile (ready long_take) = Some long_take"
    by (simp_all add: ready_def)
  have b: "trim (transcript (ready long_take)) \<noteq> []"
    by (simp add: ready_def trim_hello)
  have c: "generateSrtFromVideo (refusing (js ''got status: 400 Bad Request'')) (js ''AAAA'')
         (file_type long_take) (transcript (ready long_take))
       = ([\<lparr>apiKey = js ''key'', model_name = js ''gemini-2.5-flash'',
            inline_mimeType = js ''video/mp4'', inline_data = js ''AAAA'',
            prompt_text = prompt (js ''Hello world''), temperature_tenths = 2\<rparr>],
          Inl (js ''got status: 400 Bad Request''))"
    by (simp add: ready_def long_take_def refused_400)
  have d: "20 * 1024 * 1024 < file_size long_take"
    by (simp add: long_take_def)
  have e: "js ''got status: 400 Bad Request'' @ js '' (The file might be too large for direct API processing. Try compressing it under 20MB.)''
      = js ''got status: 400 Bad Request (The file might be too large for direct API processing. Try compressing it under 20MB.)''"
    by (simp add: js_def)
  from alignment_failure_message [OF a b c] a b c d e includes_400
  show ?thesis by simp
qed

subsection \<open>The derived file name\<close>

lemma ext_chars_no_dot: "ext_chars (cs @ 0x2E # ext) = False"
  by (simp add: ext_chars_def)

lemma strip_extension_splits:
  "ext_chars ext \<Longrightarrow> strip_extension (stem @ 0x2E # ext) = stem"
  by (induction stem) (simp_all add: ext_chars_no_dot)

lemma strip_extension_none:
  "(\<forall>stem ext. n = stem @ 0x2E # ext \<longrightarrow> \<not> ext_chars ext) \<Longrightarrow> strip_extension n = n"
proof (induction n)
  case Nil
  then show ?case by simp
next
  case (Cons c cs)
  have first: "\<not> (c = 0x2E \<and> ext_chars cs)"
    using Cons.prems [rule_format, of "[]" cs] by auto
  have rest: "\<forall>stem ext. cs = stem @ 0x2E # ext \<longrightarrow> \<not> ext_chars ext"
  proof (intro allI impI)
    fix stem ext
    assume "cs = stem @ 0x2E # ext"
    then have "c # cs = (c # stem) @ 0x2E # ext" by simp
    with Cons.prems show "\<not> ext_chars ext" by blast
  qed
  from first Cons.IH [OF rest] show ?case by auto
qed

lemma no_dot_no_split: "0x2E \<notin> set n \<Longrightarrow> n \<noteq> stem @ 0x2E # ext"
  by auto

text \<open>
  C9. A final dot-extension of a name is a dot followed, up to the end of the name, by one
  character or more, none of them a dot or a slash (\<open>ext_chars\<close>). When the name is
  \<open>stem\<close>, a dot and such an extension, the derived name is \<open>stem\<close> followed by
  \<open>.srt\<close>; when the name has no such extension, the derived name is the whole name
  followed by \<open>.srt\<close>. So \<open>movie.mp4\<close> gives \<open>movie.srt\<close> and \<open>clip\<close> gives
  \<open>clip.srt\<close>.
\<close>

theorem derived_name:
  "(n = stem @ 0x2E # ext \<and> ext_chars ext
      \<longrightarrow> download_name (downloadSrt content n) = stem @ js ''.srt'')
   \<and> ((\<forall>stem ext. n = stem @ 0x2E # ext \<longrightarrow> \<not> ext_chars ext)
      \<longrightarrow> download_name (downloadSrt content n) = n @ js ''.srt'')
   \<and> download_name (downloadSrt content (js ''movie.mp4'')) = js ''movie.srt''
   \<and> download_name (downloadSrt content (js ''clip'')) = js ''clip.srt''"
proof (intro conjI impI)
  assume "n = stem @ 0x2E # ext \<and> ext_chars ext"
  then show "download_name (downloadSrt content n) = stem @ js ''.srt''"
    by (simp add: downloadSrt_def strip_extension_splits)
next
  assume "\<forall>stem ext. n = stem @ 0x2E # ext \<longrightarrow> \<not> ext_chars ext"
  then show "download_name (downloadSrt content n) = n @ js ''.srt''"
    by (simp add: downloadSrt_def strip_extension_none)
next
  show "download_name (downloadSrt content (js ''movie.mp4'')) = js ''movie.srt''"
    by (simp add: downloadSrt_def js_def ext_chars_def)
next
  show "download_name (downloadSrt content (js ''clip'')) = js ''clip.srt''"
    by (simp add: downloadSrt_def js_def ext_chars_def)
qed

theorem derived_name_witness:
  "js ''archive.tar.gz'' = js ''archive.tar'' @ 0x2E # js ''gz'' \<and> ext_chars (js ''gz'')
   \<and> download_name (downloadSrt (js ''1'') (js ''archive.tar.gz''))
       = js ''archive.tar'' @ js ''.srt''
   \<and> 0x2E \<notin> set (js ''notes'')
   \<and> download_name (downloadSrt (js ''1'') (js ''notes'')) = js ''notes'' @ js ''.srt''"
proof -
  have a: "js ''archive.tar.gz'' = js ''archive.tar'' @ 0x2E # js ''gz'' \<and> ext_chars (js ''gz'')"
    by (simp add: js_def ext_chars_def)
  have no_dot: "(0x2E :: code_unit) \<notin> set (js ''notes'')"
    by (simp add: js_def)
  then have b: "\<forall>stem ext. js ''notes'' = stem @ 0x2E # ext \<longrightarrow> \<not> ext_chars ext"
    using no_dot_no_split by blast
  from derived_name [of "js ''archive.tar.gz''" "js ''archive.tar''" "js ''gz''" "js ''1''"] a
  have c: "download_name (downloadSrt (js ''1'') (js ''archive.tar.gz''))
             = js ''archive.tar'' @ js ''.srt''"
    by blast
  from derived_name [of "js ''notes''" _ _ "js ''1''"] b
  have d: "download_name (downloadSrt (js ''1'') (js ''notes'')) = js ''notes'' @ js ''.srt''"
    by blast
  from a no_dot c d show ?thesis by blast
qed

text \<open>
  C10, as the code has it. For a name that is a dot followed by one character or more,
  none of them a dot or a slash (such as \<open>.gitignore\<close>), the whole name is the
  extension and the derived name is exactly \<open>.srt\<close>.
\<close>

theorem hidden_name:
  assumes "rest \<noteq> []" and "0x2E \<notin> set rest" and "0x2F \<notin> set rest"
  shows "download_name (downloadSrt content (0x2E # rest)) = js ''.srt''"
  using assms by (auto simp: downloadSrt_def ext_chars_def list_all_iff)

theorem hidden_name_witness:
  "js ''gitignore'' \<noteq> [] \<and> 0x2E \<notin> set (js ''gitignore'') \<and> 0x2F \<notin> set (js ''gitignore'')
   \<and> download_name (downloadSrt (js ''1'') (js ''.gitignore'')) = js ''.srt''"
proof -
  have a: "js ''gitignore'' \<noteq> []" "0x2E \<notin> set (js ''gitignore'')"
    "0x2F \<notin> set (js ''gitignore'')"
    by (simp_all add: js_def)
  have b: "js ''.gitignore'' = 0x2E # js ''gitignore''"
    by (simp add: js_def)
  from hidden_name [OF a, of "js ''1''"] a b show ?thesis by simp
qed

text \<open>
  The claim as stated covers every name that begins with a dot and has no other dot. It
  fails on the name that is a dot alone, and on a name with a slash after the dot: the
  pattern asks for one character at least after the dot and for no slash, so nothing is
  removed.
\<close>

theorem hidden_name_counterexample:
  "startsWith (js ''.'') (js ''.'') \<and> count_list (js ''.'') 0x2E = 1
   \<and> download_name (downloadSrt (js ''1'') (js ''.'')) = js ''..srt''
   \<and> download_name (downloadSrt (js ''1'') (js ''.'')) \<noteq> js ''.srt''
   \<and> startsWith (js ''.a/b'') (js ''.'') \<and> count_list (js ''.a/b'') 0x2E = 1
   \<and> download_name (downloadSrt (js ''1'') (js ''.a/b'')) = js ''.a/b.srt''"
  by (simp add: downloadSrt_def js_def ext_chars_def startsWith_def)

subsection \<open>The text of a size\<close>

lemma floor_log_le: "n < 1024 ^ Suc m \<Longrightarrow> floor_log 1024 n \<le> m"
proof (induction m arbitrary: n)
  case 0
  then show ?case by (simp add: floor_log.simps)
next
  case (Suc m)
  show ?case
  proof (cases "n < 1024")
    case True
    then show ?thesis by (simp add: floor_log.simps)
  next
    case False
    from Suc.prems have "n div 1024 < 1024 ^ Suc m"
      by (simp add: less_mult_imp_div_less mult.commute)
    from Suc.IH [OF this] False show ?thesis
      by (subst floor_log.simps) simp
  qed
qed

lemma floor_log_bounds:
  "1 \<le> n \<Longrightarrow> 1024 ^ floor_log 1024 n \<le> n \<and> n < 1024 ^ Suc (floor_log 1024 n)"
proof (induction n rule: less_induct)
  case (less n)
  show ?case
  proof (cases "n < 1024")
    case True
    with less.prems show ?thesis by (simp add: floor_log.simps)
  next
    case False
    then have "n div 1024 < n" "1 \<le> n div 1024" by (simp_all add: div_greater_zero_iff)
    from less.IH [OF this]
    have ih: "1024 ^ floor_log 1024 (n div 1024) \<le> n div 1024"
      "n div 1024 < 1024 ^ Suc (floor_log 1024 (n div 1024))" by simp_all
    have eq: "floor_log 1024 n = Suc (floor_log 1024 (n div 1024))"
      using False by (subst floor_log.simps) simp
    from ih(1) have "1024 * 1024 ^ floor_log 1024 (n div 1024) \<le> 1024 * (n div 1024)"
      by simp
    also have "\<dots> \<le> n" by simp
    finally have lo: "1024 ^ floor_log 1024 n \<le> n" by (simp add: eq)
    from ih(2) have "n < 1024 * 1024 ^ Suc (floor_log 1024 (n div 1024))"
      using div_less_iff_less_mult [of 1024 n] by (simp add: mult.commute)
    with lo show ?thesis by (simp add: eq)
  qed
qed

text \<open>
  Below \<open>1024 ^ 4\<close> bytes the unit is one of the four of the table, the largest whose
  scaled value is at least 1, and the text ends with its name.
\<close>

lemma formatFileSize_below_1TB:
  assumes "1 \<le> b" and "b < 1024 ^ 4"
  shows "\<exists>i<4. formatFileSize b = show_hundredths (toFixed2 b (1024 ^ i)) @ js '' '' @ sizes ! i
           \<and> 1024 ^ i \<le> b \<and> b < 1024 ^ Suc i"
proof -
  from assms(2) have "floor_log 1024 b \<le> 3"
    using floor_log_le [of b 3] by simp
  with assms(1) floor_log_bounds [OF assms(1)] show ?thesis
    by (intro exI [of _ "floor_log 1024 b"])
      (simp add: formatFileSize_def Let_def at_index_def sizes_def)
qed

lemma formatFileSize_zero: "formatFileSize 0 = js ''0 Bytes''"
  by (simp add: formatFileSize_def)

lemma floor_log_2TB: "floor_log 1024 2199023255552 = 4"
  by (simp add: floor_log.simps)

lemma toFixed2_2TB: "toFixed2 2199023255552 (1024 ^ 4) = 200"
  by (simp add: toFixed2_def)

lemma show_nat_2: "show_nat 2 = js ''2''"
  by (simp add: show_nat.simps digit_def js_def)

text \<open>
  C2 at a byte count of 2 TB (\<open>2 ^ 41\<close>): the index into the table of units is 4, past
  its end, and the text that \<open>formatFileSize\<close> returns ends with \<open>undefined\<close>, not
  with the name of a unit.
\<close>

theorem formatFileSize_2TB:
  "formatFileSize 2199023255552 = js ''2 undefined''"
  unfolding formatFileSize_def Let_def floor_log_2TB toFixed2_2TB
  by (simp add: show_hundredths_def show_nat_2 at_index_def sizes_def js_def)

subsection \<open>The fences of a response\<close>

lemma fence_length [simp]: "length fence = 3"
  by (simp add: fence_def)




















text \<open>A response without fences is trimmed and nothing more.\<close>

lemma unfenced_response_is_trimmed:
  "\<not> startsWith t fence \<Longrightarrow> \<not> endsWith t fence \<Longrightarrow> cleanedText t = trim t"
  by (simp add: cleanedText_def strip_srt_fence_def strip_open_fence_def strip_close_fence_def)

text \<open>
  The closing fence is removed only where it ends the response: with a line break after
  it, it stays in the result, since the white space is trimmed last.
\<close>

lemma closing_fence_before_line_break:
  "cleanedText (fence @ js ''srt\<newline>hi\<newline>'' @ fence @ js ''\<newline>'')
     = js ''hi\<newline>'' @ fence"
  by (simp add: cleanedText_def strip_srt_fence_def strip_open_fence_def strip_close_fence_def
      startsWith_def endsWith_def fence_def srt_tag_def trim_def is_space_def js_def)

subsection \<open>One alignment call at a time\<close>

lemma split_first: "split 0x2C (js ''data:video/mp4;base64,AAAA'')
    = [js ''data:video/mp4;base64'', js ''AAAA'']"
  by (simp add: js_def)

lemma split_second: "split 0x2C (js ''data:video/mp4;base64,BBBB'')
    = [js ''data:video/mp4;base64'', js ''BBBB'']"
  by (simp add: js_def)

lemma video_mp4: "startsWith (js ''video/mp4'') (js ''video/'')"
  by (simp add: startsWith_def js_def)

text \<open>
  C4 on the run \<open>overlapping_uploads\<close>. After it the step is \<open>TRANSCRIPT\<close> while the
  alignment call made during the run has not settled: the encoding of the second file
  ended during \<open>PROCESSING\<close> and set the step. Generation can be requested again, and
  then two calls are unsettled and two requests have been sent.
\<close>

theorem second_call_while_first_unsettled:
  "map_option (\<lambda>\<sigma>. (step (ui \<sigma>), length (aligning \<sigma>), length (sent_requests \<sigma>)))
     (run (answering (js ''1'')) initial_session overlapping_uploads) = Some (TRANSCRIPT, 1, 1)
   \<and> map_option (\<lambda>\<sigma>. (step (ui \<sigma>), length (aligning \<sigma>), length (sent_requests \<sigma>)))
     (run (answering (js ''1'')) initial_session (overlapping_uploads @ [GenerateClicked]))
       = Some (PROCESSING, 2, 2)"
  by (simp add: overlapping_uploads_def initial_session_def initial_state_def clip_def
      long_take_def answering_def handleFileSelect_begin_def handleDrop_begin_def
      handleFileSelect_settle_def handleDrop_settle_def handleGenerate_begin_def
      changeTranscript_def generateSrtFromVideo_def fileToBase64_def at_index_def
      remove_nth_def MAX_FILE_SIZE_BYTES_def MAX_FILE_SIZE_MB_def trim_hello split_first
      split_second video_mp4 falsy_def Let_def)

text \<open>
  When no file is offered while another is still being read, the calls are serial: at
  most one is unsettled at any moment, it is unsettled only during \<open>PROCESSING\<close>, and
  generation can be requested only when none is.
\<close>

lemma remove_nth_short: "length xs \<le> 1 \<Longrightarrow> i < length xs \<Longrightarrow> remove_nth i xs = []"
  by (cases xs) (simp_all add: remove_nth_def)

lemma fire_serial:
  assumes "serial \<sigma>" and "enabled \<sigma> e" and "offers e \<longrightarrow> encoding \<sigma> = []"
  shows "serial (fire env \<sigma> e)"
proof (cases e)
  case (FileSelected files)
  with assms show ?thesis
    by (auto simp: serial_def handleFileSelect_begin_def split: option.splits list.splits)
next
  case (Dropped files)
  with assms show ?thesis
    by (auto simp: serial_def handleDrop_begin_def split: option.splits list.splits)
next
  case (EncodingSettled i r)
  with assms show ?thesis
    by (auto simp: serial_def at_index_def remove_nth_short handleFileSelect_settle_def
        handleDrop_settle_def split: sum.splits entry_point.splits prod.splits)
next
  case (TranscriptChanged v)
  with assms show ?thesis by (auto simp: serial_def changeTranscript_def)
next
  case GenerateClicked
  with assms show ?thesis
    by (auto simp: serial_def handleGenerate_begin_def split: option.splits prod.splits)
next
  case (AlignmentSettled i)
  with assms show ?thesis
    by (auto simp: serial_def at_index_def remove_nth_short handleGenerate_settle_def Let_def
        split: sum.splits prod.splits)
next
  case ResetClicked
  with assms show ?thesis by (auto simp: serial_def handleReset_def initial_state_def)
next
  case TryAgainClicked
  with assms show ?thesis by (auto simp: serial_def tryAgain_def)
next
  case DownloadClicked
  with assms show ?thesis by (auto simp: serial_def)
qed

lemma run_serial:
  "serial \<sigma> \<Longrightarrow> one_upload_at_a_time env \<sigma> es \<Longrightarrow> run env \<sigma> es = Some \<sigma>' \<Longrightarrow> serial \<sigma>'"
proof (induction es arbitrary: \<sigma>)
  case Nil
  then show ?case by simp
next
  case (Cons e es)
  from Cons.prems(3) have en: "enabled \<sigma> e" and rest: "run env (fire env \<sigma> e) es = Some \<sigma>'"
    by (auto split: if_splits)
  from Cons.prems(1,2) en have "serial (fire env \<sigma> e)"
    by (auto intro: fire_serial)
  with Cons.IH rest Cons.prems(2) show ?case by simp
qed

lemma serial_initial: "serial initial_session"
  by (simp add: serial_def initial_session_def)

lemma generate_only_when_settled:
  assumes "one_upload_at_a_time env initial_session es"
    and "run env initial_session es = Some \<sigma>"
    and "enabled \<sigma> GenerateClicked"
  shows "aligning \<sigma> = []"
proof -
  from serial_initial assms(1,2) have "serial \<sigma>" by (rule run_serial)
  with assms(3) show ?thesis by (auto simp: serial_def)
qed

end
